theory Spec2Isabelle
  imports Complex_Main "HOL-Library.Monad_Syntax" "HOL-Library.AList"
begin

section \<open>Texts and numbers as the Python code sees them\<close>

text \<open>
  A text is a list of code points below 256, so that \<open>str.strip\<close>, \<open>float\<close> and the
  \<open>\s\<close> and \<open>\d\<close> classes of \<open>strptime\<close> are modelled exactly on that range.
  A Python float is \<open>NaN\<close>, an infinity, or a finite number. Finite numbers are carried
  with their exact value: the rounding of binary64 to 53 bits and the overflow of
  arithmetic are not modelled, only the overflow and underflow of a parsed literal are.
\<close>

datatype pyfloat = Fin real | PInf | NInf | NaN

datatype py_exception =
  OverflowError string | AttributeError string | ZeroDivisionError string | ValueError string

fun exn_message :: "py_exception \<Rightarrow> string" where
  "exn_message (OverflowError m) = m"
| "exn_message (AttributeError m) = m"
| "exn_message (ZeroDivisionError m) = m"
| "exn_message (ValueError m) = m"

definition is_digit :: "char \<Rightarrow> bool" where
  "is_digit c \<longleftrightarrow> c \<in> set ''0123456789''"

definition digit_val :: "char \<Rightarrow> nat" where
  "digit_val c = of_char c - 48"

definition nat_of_digits :: "string \<Rightarrow> nat" where
  "nat_of_digits ds = foldl (\<lambda>n c. 10 * n + digit_val c) 0 ds"

definition py_isspace :: "char \<Rightarrow> bool" where
  \<comment> \<open>\<open>str.isspace\<close> and the regular expression class \<open>\s\<close> below 256\<close>
  "py_isspace c \<longleftrightarrow>
     (of_char c :: nat) \<in> {9, 10, 11, 12, 13, 28, 29, 30, 31, 32, 133, 160}"

definition float_isspace :: "char \<Rightarrow> bool" where
  \<comment> \<open>the white space that \<open>float\<close> strips: the codes 28 to 31 are not among it\<close>
  "float_isspace c \<longleftrightarrow> (of_char c :: nat) \<in> {9, 10, 11, 12, 13, 32, 133, 160}"

definition strip_with :: "(char \<Rightarrow> bool) \<Rightarrow> string \<Rightarrow> string" where
  "strip_with sp s = rev (dropWhile sp (rev (dropWhile sp s)))"

definition py_strip :: "string \<Rightarrow> string" where
  "py_strip s = strip_with py_isspace s"

definition split_comma_first :: "string \<Rightarrow> string" where
  \<comment> \<open>\<open>s.split(',')[0]\<close>\<close>
  "split_comma_first s = takeWhile (\<lambda>c. c \<noteq> CHR '','') s"

subsection \<open>The literal grammar of \<open>float\<close>\<close>

fun underscores_ok :: "char \<Rightarrow> string \<Rightarrow> bool" where
  \<comment> \<open>an underscore stands between two digits; the first argument is the previous character\<close>
  "underscores_ok prev [] = (prev \<noteq> CHR ''_'')"
| "underscores_ok prev (c # cs) =
     ((if c = CHR ''_'' then is_digit prev
       else (prev = CHR ''_'' \<longrightarrow> is_digit c)) \<and> underscores_ok c cs)"

definition remove_underscores :: "string \<Rightarrow> string option" where
  "remove_underscores s =
     (if underscores_ok (CHR 0x00) s then Some (filter (\<lambda>c. c \<noteq> CHR ''_'') s) else None)"

definition lower_ascii :: "char \<Rightarrow> char" where
  "lower_ascii c =
     (case map_of (zip ''ABCDEFGHIJKLMNOPQRSTUVWXYZ'' ''abcdefghijklmnopqrstuvwxyz'') c of
        Some l \<Rightarrow> l
      | None \<Rightarrow> c)"

definition split_sign :: "string \<Rightarrow> bool \<times> string" where
  \<comment> \<open>an optional sign; True when negative\<close>
  "split_sign s =
     (case s of
        c # cs \<Rightarrow> if c = CHR ''-'' then (True, cs) else if c = CHR ''+'' then (False, cs)
                  else (False, s)
      | [] \<Rightarrow> (False, s))"

definition decimal_value :: "nat \<Rightarrow> nat \<Rightarrow> int \<Rightarrow> real" where
  \<comment> \<open>the digits \<open>m\<close> with \<open>k\<close> of them after the point, times ten to the \<open>e\<close>\<close>
  "decimal_value m k e =
     (if int k \<le> e then real m * 10 ^ nat (e - int k) else real m / 10 ^ nat (int k - e))"

definition parse_exponent :: "string \<Rightarrow> int option" where
  "parse_exponent s =
     (case s of
        [] \<Rightarrow> Some 0
      | c # cs \<Rightarrow>
          if c = CHR ''e'' \<or> c = CHR ''E'' then
            (let (neg, ds) = split_sign cs
             in if ds \<noteq> [] \<and> list_all is_digit ds
                then Some (if neg then - int (nat_of_digits ds) else int (nat_of_digits ds))
                else None)
          else None)"

definition parse_decimal :: "string \<Rightarrow> real option" where
  \<comment> \<open>digits, an optional point and digits, an optional exponent; a digit is required\<close>
  "parse_decimal s =
     (let ip = takeWhile is_digit s; r1 = dropWhile is_digit s;
          (fp, r2) = (case r1 of
                        c # t \<Rightarrow> if c = CHR ''.'' then (takeWhile is_digit t, dropWhile is_digit t)
                                 else ([], r1)
                      | [] \<Rightarrow> ([], r1))
      in if ip = [] \<and> fp = [] then None
         else (case parse_exponent r2 of
                 None \<Rightarrow> None
               | Some e \<Rightarrow> Some (decimal_value (nat_of_digits (ip @ fp)) (length fp) e)))"

definition float_of_real :: "real \<Rightarrow> pyfloat" where
  \<comment> \<open>the range of binary64: a literal at or beyond \<open>2^1024 - 2^970\<close> overflows to an
      infinity and one of magnitude at most \<open>2^-1075\<close> underflows to zero\<close>
  "float_of_real r =
     (if 2 ^ 1024 - 2 ^ 970 \<le> \<bar>r\<bar> then (if 0 < r then PInf else NInf)
      else if \<bar>r\<bar> \<le> 1 / 2 ^ 1075 then Fin 0
      else Fin r)"

definition py_float :: "string \<Rightarrow> pyfloat option" where
  \<comment> \<open>\<open>float(s)\<close> for a text; None stands for ValueError\<close>
  "py_float s =
     (case remove_underscores (strip_with float_isspace s) of
        None \<Rightarrow> None
      | Some t \<Rightarrow>
          (let (neg, body) = split_sign t; low = map lower_ascii body
           in if low = ''inf'' \<or> low = ''infinity'' then Some (if neg then NInf else PInf)
              else if low = ''nan'' then Some NaN
              else (case parse_decimal body of
                      None \<Rightarrow> None
                    | Some r \<Rightarrow> Some (float_of_real (if neg then - r else r)))))"

subsection \<open>Comparison, truth value, truncation and rounding\<close>

fun py_lt :: "pyfloat \<Rightarrow> pyfloat \<Rightarrow> bool" where
  "py_lt NaN _ = False"
| "py_lt _ NaN = False"
| "py_lt (Fin a) (Fin b) = (a < b)"
| "py_lt NInf NInf = False"
| "py_lt NInf _ = True"
| "py_lt _ NInf = False"
| "py_lt PInf _ = False"
| "py_lt _ PInf = True"

definition py_gt :: "pyfloat \<Rightarrow> pyfloat \<Rightarrow> bool" where
  "py_gt a b = py_lt b a"

fun py_truthy :: "pyfloat \<Rightarrow> bool" where
  "py_truthy (Fin r) = (r \<noteq> 0)"
| "py_truthy _ = True"

definition round_half_even :: "real \<Rightarrow> int" where
  "round_half_even x =
     (let f = \<lfloor>x\<rfloor>; d = x - of_int f
      in if d < 1 / 2 then f else if 1 / 2 < d then f + 1
         else if even f then f else f + 1)"

fun py_round :: "pyfloat \<Rightarrow> nat \<Rightarrow> pyfloat" where
  \<comment> \<open>\<open>round(x, n)\<close>: ties to even; NaN and the infinities round to themselves\<close>
  "py_round (Fin r) n = Fin (of_int (round_half_even (r * 10 ^ n)) / 10 ^ n)"
| "py_round x n = x"

definition py_trunc :: "real \<Rightarrow> int" where
  \<comment> \<open>\<open>int(x)\<close> of a finite float: towards zero\<close>
  "py_trunc r = (if 0 \<le> r then \<lfloor>r\<rfloor> else \<lceil>r\<rceil>)"

fun py_int_of_float :: "pyfloat \<Rightarrow> py_exception + int option" where
  \<comment> \<open>\<open>int(x)\<close>: ValueError (None) on NaN, OverflowError on an infinity\<close>
  "py_int_of_float (Fin r) = Inr (Some (py_trunc r))"
| "py_int_of_float NaN = Inr None"
| "py_int_of_float _ = Inl (OverflowError ''cannot convert float infinity to integer'')"


section \<open>Calendar timestamps\<close>

text \<open>
  \<open>datetime.strptime(s, "%Y-%m-%d %H:%M:%S")\<close> matches the text against the regular
  expression that the format compiles to, field by field, and then builds the
  \<open>datetime\<close>, which checks the calendar. Every alternative of a field is tried in the
  order of the expression. A field is followed by a character that is no digit, so a
  later alternative never succeeds where an earlier one has matched.
\<close>

record datetime =
  dt_year :: int
  dt_month :: int
  dt_day :: int
  dt_hour :: int
  dt_minute :: int
  dt_second :: int

type_synonym matcher = "string \<Rightarrow> (string \<times> string) option"

definition cls1 :: "string \<Rightarrow> matcher" where
  \<comment> \<open>one character of the class\<close>
  "cls1 A s = (case s of a # r \<Rightarrow> if a \<in> set A then Some ([a], r) else None | [] \<Rightarrow> None)"

definition cls2 :: "string \<Rightarrow> string \<Rightarrow> matcher" where
  \<comment> \<open>two characters, one of each class\<close>
  "cls2 A B s =
     (case s of
        a # b # r \<Rightarrow> if a \<in> set A \<and> b \<in> set B then Some ([a, b], r) else None
      | _ \<Rightarrow> None)"

fun first_of :: "matcher list \<Rightarrow> matcher" where
  "first_of [] s = None"
| "first_of (m # ms) s = (case m s of Some r \<Rightarrow> Some r | None \<Rightarrow> first_of ms s)"

definition re_Y :: matcher where
  "re_Y s =
     (case s of
        a # b # c # d # r \<Rightarrow> if list_all is_digit [a, b, c, d] then Some ([a, b, c, d], r) else None
      | _ \<Rightarrow> None)"

definition re_m :: matcher where
  "re_m = first_of [cls2 ''1'' ''012'', cls2 ''0'' ''123456789'', cls1 ''123456789'']"

definition re_d :: matcher where
  "re_d = first_of [cls2 ''3'' ''01'', cls2 ''12'' ''0123456789'', cls2 ''0'' ''123456789'',
                    cls1 ''123456789'', cls2 '' '' ''123456789'']"

definition re_H :: matcher where
  "re_H = first_of [cls2 ''2'' ''0123'', cls2 ''01'' ''0123456789'', cls1 ''0123456789'']"

definition re_M :: matcher where
  "re_M = first_of [cls2 ''012345'' ''0123456789'', cls1 ''0123456789'']"

definition re_S :: matcher where
  "re_S = first_of [cls2 ''6'' ''01'', cls2 ''012345'' ''0123456789'', cls1 ''0123456789'']"

definition lit :: "char \<Rightarrow> string \<Rightarrow> string option" where
  "lit c s = (case s of a # r \<Rightarrow> if a = c then Some r else None | [] \<Rightarrow> None)"

definition spaces1 :: "string \<Rightarrow> string option" where
  \<comment> \<open>\<open>\s+\<close>\<close>
  "spaces1 s = (case s of a # r \<Rightarrow> if py_isspace a then Some (dropWhile py_isspace r) else None
                | [] \<Rightarrow> None)"

definition field_int :: "string \<Rightarrow> int" where
  \<comment> \<open>\<open>int\<close> of a matched field; the day may carry a leading blank\<close>
  "field_int t = int (nat_of_digits (filter is_digit t))"

definition is_leap :: "int \<Rightarrow> bool" where
  "is_leap y \<longleftrightarrow> y mod 4 = 0 \<and> (y mod 100 \<noteq> 0 \<or> y mod 400 = 0)"

definition days_in_month :: "int \<Rightarrow> int \<Rightarrow> int" where
  "days_in_month y m =
     (if m = 2 \<and> is_leap y then 29
      else [31, 28, 31, 30, 31, 30, 31, 31, 30, 31, 30, 31] ! nat (m - 1))"

definition days_before_year :: "int \<Rightarrow> int" where
  "days_before_year year =
     (let y = year - 1 in y * 365 + y div 4 - y div 100 + y div 400)"

definition days_before_month :: "int \<Rightarrow> int \<Rightarrow> int" where
  "days_before_month y m =
     [0, 31, 59, 90, 120, 151, 181, 212, 243, 273, 304, 334] ! nat (m - 1)
       + (if 2 < m \<and> is_leap y then 1 else 0)"

definition ymd2ord :: "int \<Rightarrow> int \<Rightarrow> int \<Rightarrow> int" where
  "ymd2ord y m d = days_before_year y + days_before_month y m + d"

definition make_datetime :: "int \<Rightarrow> int \<Rightarrow> int \<Rightarrow> int \<Rightarrow> int \<Rightarrow> int \<Rightarrow> datetime option" where
  \<comment> \<open>the constructor; None stands for its ValueError\<close>
  "make_datetime y m d h mi sec =
     (if 1 \<le> y \<and> y \<le> 9999 \<and> 1 \<le> m \<and> m \<le> 12 \<and> 1 \<le> d \<and> d \<le> days_in_month y m
         \<and> 0 \<le> h \<and> h \<le> 23 \<and> 0 \<le> mi \<and> mi \<le> 59 \<and> 0 \<le> sec \<and> sec \<le> 59
      then Some \<lparr>dt_year = y, dt_month = m, dt_day = d, dt_hour = h, dt_minute = mi,
                  dt_second = sec\<rparr>
      else None)"

definition strptime :: "string \<Rightarrow> datetime option" where
  \<comment> \<open>None stands for ValueError\<close>
  "strptime s = do {
     (y, r) \<leftarrow> re_Y s;
     r \<leftarrow> lit (CHR ''-'') r;
     (m, r) \<leftarrow> re_m r;
     r \<leftarrow> lit (CHR ''-'') r;
     (d, r) \<leftarrow> re_d r;
     r \<leftarrow> spaces1 r;
     (h, r) \<leftarrow> re_H r;
     r \<leftarrow> lit (CHR '':'') r;
     (mi, r) \<leftarrow> re_M r;
     r \<leftarrow> lit (CHR '':'') r;
     (sec, r) \<leftarrow> re_S r;
     if r = [] then make_datetime (field_int y) (field_int m) (field_int d)
                      (field_int h) (field_int mi) (field_int sec)
     else None
   }"

fun lex_le :: "int list \<Rightarrow> int list \<Rightarrow> bool" where
  "lex_le [] _ = True"
| "lex_le (a # as) [] = False"
| "lex_le (a # as) (b # bs) = (a < b \<or> (a = b \<and> lex_le as bs))"

definition dt_key :: "datetime \<Rightarrow> int list" where
  "dt_key t = [dt_year t, dt_month t, dt_day t, dt_hour t, dt_minute t, dt_second t]"

definition dt_le :: "datetime \<Rightarrow> datetime \<Rightarrow> bool" where
  \<comment> \<open>\<open>a <= b\<close>: the fields are compared in order\<close>
  "dt_le a b = lex_le (dt_key a) (dt_key b)"

definition dt_diff_seconds :: "datetime \<Rightarrow> datetime \<Rightarrow> int" where
  \<comment> \<open>\<open>(a - b).total_seconds()\<close>, a whole number\<close>
  "dt_diff_seconds a b =
     (ymd2ord (dt_year a) (dt_month a) (dt_day a) - ymd2ord (dt_year b) (dt_month b) (dt_day b))
        * 86400
      + ((dt_second a + dt_minute a * 60 + dt_hour a * 3600)
         - (dt_second b + dt_minute b * 60 + dt_hour b * 3600))"

definition digit_char :: "nat \<Rightarrow> char" where
  "digit_char n = ''0123456789'' ! (n mod 10)"

definition show_year :: "int \<Rightarrow> string" where
  \<comment> \<open>the decimal digits of a year between 1 and 9999, without padding\<close>
  "show_year y =
     (let n = nat y
      in (if 1000 \<le> n then [digit_char (n div 1000)] else [])
         @ (if 100 \<le> n then [digit_char (n div 100)] else [])
         @ (if 10 \<le> n then [digit_char (n div 10)] else [])
         @ [digit_char n])"

definition pad2 :: "int \<Rightarrow> string" where
  "pad2 n = [digit_char (nat n div 10), digit_char (nat n)]"

definition strftime :: "datetime \<Rightarrow> string" where
  \<comment> \<open>\<open>t.strftime("%Y-%m-%d %H:%M:%S")\<close>\<close>
  "strftime t =
     show_year (dt_year t) @ ''-'' @ pad2 (dt_month t) @ ''-'' @ pad2 (dt_day t)
       @ '' '' @ pad2 (dt_hour t) @ '':'' @ pad2 (dt_minute t) @ '':'' @ pad2 (dt_second t)"


section \<open>The record validator (\<open>data_cleaning.py\<close>)\<close>

text \<open>
  A raw record is the row that \<open>csv.DictReader\<close> yields: a field is absent (the header
  does not name it), \<open>None\<close> (the line is too short) or a text.
\<close>

type_synonym raw_record = "string \<Rightarrow> string option option"

definition row_get :: "raw_record \<Rightarrow> string \<Rightarrow> string option" where
  \<comment> \<open>\<open>row.get(key, "")\<close>; the result None is Python's \<open>None\<close>\<close>
  "row_get row key = (case row key of None \<Rightarrow> Some [] | Some v \<Rightarrow> v)"

definition max_distance_miles :: real where "max_distance_miles = 50"
definition min_fare :: real where "min_fare = 0"
definition max_fare :: real where "max_fare = 500"
definition min_trip_duration_minutes :: real where "min_trip_duration_minutes = 1"
definition max_trip_duration_minutes :: real where "max_trip_duration_minutes = 1440"
definition min_passenger_count :: int where "min_passenger_count = 1"
definition max_passenger_count :: int where "max_passenger_count = 8"

definition VALID_RATE_CODES :: "int list" where "VALID_RATE_CODES = [1, 2, 3, 4, 5]"
definition VALID_PAYMENT_TYPES :: "int list" where "VALID_PAYMENT_TYPES = [1, 2, 3, 4, 5]"
definition VALID_STORE_FWD_FLAGS :: "string list" where "VALID_STORE_FWD_FLAGS = [''Y'', ''N'']"

definition parse_datetime :: "string option \<Rightarrow> datetime option" where
  "parse_datetime date_string =
     (case date_string of
        None \<Rightarrow> None
      | Some s \<Rightarrow>
          if s = [] then None
          else (let s1 = py_strip s
                in case strptime s1 of
                     Some dt \<Rightarrow> Some dt
                   | None \<Rightarrow> strptime (py_strip (split_comma_first s1))))"

definition parse_float :: "string option \<Rightarrow> pyfloat option" where
  "parse_float v = (case v of None \<Rightarrow> None | Some s \<Rightarrow> if s = [] then None else py_float s)"

definition parse_int :: "string option \<Rightarrow> py_exception + int option" where
  \<comment> \<open>\<open>int(float(value))\<close>; only ValueError and TypeError are caught\<close>
  "parse_int v =
     (case v of
        None \<Rightarrow> Inr None
      | Some s \<Rightarrow>
          if s = [] then Inr None
          else (case py_float s of None \<Rightarrow> Inr None | Some x \<Rightarrow> py_int_of_float x))"

record cleaned_record =
  trip_id :: int
  vendor_id :: "int option"
  pickup_datetime :: string
  dropoff_datetime :: string
  passenger_count :: int
  trip_distance :: pyfloat
  ratecode_id :: int
  store_and_fwd_flag :: string
  pulocation_id :: int
  dolocation_id :: int
  payment_type :: int
  fare_amount :: pyfloat
  extra :: pyfloat
  mta_tax :: pyfloat
  tip_amount :: pyfloat
  tolls_amount :: pyfloat
  improvement_surcharge :: pyfloat
  total_amount :: pyfloat
  congestion_surcharge :: pyfloat
  trip_duration_minutes :: pyfloat
  hour_of_day :: int

type_synonym validation = "bool \<times> cleaned_record option \<times> string option"

definition reject :: "string \<Rightarrow> py_exception + validation" where
  "reject reason = Inr (False, None, Some reason)"

definition or_zero :: "pyfloat option \<Rightarrow> pyfloat" where
  \<comment> \<open>\<open>x or 0.0\<close>\<close>
  "or_zero x = (case x of None \<Rightarrow> Fin 0 | Some v \<Rightarrow> if py_truthy v then v else Fin 0)"

definition strip_flag :: "string option \<Rightarrow> py_exception + string" where
  \<comment> \<open>\<open>row.get("store_and_fwd_flag", "").strip()\<close>\<close>
  "strip_flag v =
     (case v of
        None \<Rightarrow> Inl (AttributeError
                  ([CHR 0x27] @ ''NoneType'' @ [CHR 0x27] @ '' object has no attribute ''
                   @ [CHR 0x27] @ ''strip'' @ [CHR 0x27]))
      | Some s \<Rightarrow> Inr (py_strip s))"

definition build_cleaned ::
  "raw_record \<Rightarrow> int \<Rightarrow> datetime \<Rightarrow> datetime \<Rightarrow> pyfloat \<Rightarrow> pyfloat \<Rightarrow> pyfloat option \<Rightarrow> int
     \<Rightarrow> int \<Rightarrow> int \<Rightarrow> real \<Rightarrow> int \<Rightarrow> int \<Rightarrow> string \<Rightarrow> py_exception + validation" where
  \<comment> \<open>lines 178 to 215: the remaining fields and the cleaned record\<close>
  "build_cleaned row row_index pickup_dt dropoff_dt trip_dist fare total_o passengers
       pu_id do_id duration rate pay flag =
     (let extra_v = or_zero (parse_float (row_get row ''extra''));
          mta_tax_v = or_zero (parse_float (row_get row ''mta_tax''));
          tip_amount_v = or_zero (parse_float (row_get row ''tip_amount''));
          tolls_amount_v = or_zero (parse_float (row_get row ''tolls_amount''));
          improvement_surcharge_v = or_zero (parse_float (row_get row ''improvement_surcharge''));
          congestion_surcharge_v = or_zero (parse_float (row_get row ''congestion_surcharge''))
      in case parse_int (row_get row ''VendorID'') of
           Inl e \<Rightarrow> Inl e
         | Inr vendor \<Rightarrow>
             Inr (True,
                  Some \<lparr>trip_id = row_index,
                        vendor_id = vendor,
                        pickup_datetime = strftime pickup_dt,
                        dropoff_datetime = strftime dropoff_dt,
                        passenger_count = passengers,
                        trip_distance = py_round trip_dist 2,
                        ratecode_id = rate,
                        store_and_fwd_flag = flag,
                        pulocation_id = pu_id,
                        dolocation_id = do_id,
                        payment_type = pay,
                        fare_amount = py_round fare 2,
                        extra = py_round extra_v 2,
                        mta_tax = py_round mta_tax_v 2,
                        tip_amount = py_round tip_amount_v 2,
                        tolls_amount = py_round tolls_amount_v 2,
                        improvement_surcharge = py_round improvement_surcharge_v 2,
                        total_amount =
                          (case total_o of
                             None \<Rightarrow> Fin 0
                           | Some t \<Rightarrow> if py_truthy t then py_round t 2 else Fin 0),
                        congestion_surcharge = py_round congestion_surcharge_v 2,
                        trip_duration_minutes = py_round (Fin duration) 2,
                        hour_of_day = dt_hour pickup_dt\<rparr>,
                  None))"

definition check_categorical ::
  "raw_record \<Rightarrow> int \<Rightarrow> datetime \<Rightarrow> datetime \<Rightarrow> pyfloat \<Rightarrow> pyfloat \<Rightarrow> pyfloat option \<Rightarrow> int
     \<Rightarrow> int \<Rightarrow> int \<Rightarrow> py_exception + validation" where
  \<comment> \<open>lines 155 to 176: trip duration, rate code, payment type, store and forward flag\<close>
  "check_categorical row row_index pickup_dt dropoff_dt trip_dist fare total_o passengers
       pu_id do_id =
     (let duration = real_of_int (dt_diff_seconds dropoff_dt pickup_dt) / 60
      in if duration < min_trip_duration_minutes then reject ''trip_duration_too_short''
         else if max_trip_duration_minutes < duration then reject ''trip_duration_exceeds_max''
         else
           (case parse_int (row_get row ''RatecodeID'') of
              Inl e \<Rightarrow> Inl e
            | Inr None \<Rightarrow> reject ''invalid_ratecode''
            | Inr (Some rate) \<Rightarrow>
                if rate \<notin> set VALID_RATE_CODES then reject ''invalid_ratecode''
                else
                  (case parse_int (row_get row ''payment_type'') of
                     Inl e \<Rightarrow> Inl e
                   | Inr None \<Rightarrow> reject ''invalid_payment_type''
                   | Inr (Some pay) \<Rightarrow>
                       if pay \<notin> set VALID_PAYMENT_TYPES then reject ''invalid_payment_type''
                       else
                         (case strip_flag (row_get row ''store_and_fwd_flag'') of
                            Inl e \<Rightarrow> Inl e
                          | Inr flag \<Rightarrow>
                              if flag \<notin> set VALID_STORE_FWD_FLAGS
                              then reject ''invalid_store_fwd_flag''
                              else build_cleaned row row_index pickup_dt dropoff_dt trip_dist
                                     fare total_o passengers pu_id do_id duration rate pay flag))))"

definition check_ranges ::
  "int set \<Rightarrow> raw_record \<Rightarrow> int \<Rightarrow> datetime \<Rightarrow> datetime \<Rightarrow> pyfloat option \<Rightarrow> pyfloat option
     \<Rightarrow> pyfloat option \<Rightarrow> int option \<Rightarrow> int option \<Rightarrow> int option
     \<Rightarrow> py_exception + validation" where
  \<comment> \<open>lines 127 to 153: distance, fare, passenger count, zones\<close>
  "check_ranges zone_ids row row_index pickup_dt dropoff_dt trip_dist_o fare_o total_o
       passengers_o pu_o do_o =
     (case trip_dist_o of
        None \<Rightarrow> reject ''negative_or_null_distance''
      | Some trip_dist \<Rightarrow>
      if py_lt trip_dist (Fin 0) then reject ''negative_or_null_distance''
      else if py_gt trip_dist (Fin max_distance_miles) then reject ''distance_exceeds_max''
      else
     (case fare_o of
        None \<Rightarrow> reject ''negative_or_null_fare''
      | Some fare \<Rightarrow>
      if py_lt fare (Fin min_fare) then reject ''negative_or_null_fare''
      else if py_gt fare (Fin max_fare) then reject ''fare_exceeds_max''
      else
     (case passengers_o of
        None \<Rightarrow> reject ''invalid_passenger_count''
      | Some passengers \<Rightarrow>
      if passengers < min_passenger_count then reject ''invalid_passenger_count''
      else if max_passenger_count < passengers then reject ''passenger_count_exceeds_max''
      else
     (case pu_o of
        None \<Rightarrow> reject ''invalid_pulocation_id''
      | Some pu_id \<Rightarrow>
      if pu_id \<notin> zone_ids then reject ''invalid_pulocation_id''
      else
     (case do_o of
        None \<Rightarrow> reject ''invalid_dolocation_id''
      | Some do_id \<Rightarrow>
      if do_id \<notin> zone_ids then reject ''invalid_dolocation_id''
      else check_categorical row row_index pickup_dt dropoff_dt trip_dist fare total_o
             passengers pu_id do_id)))))"

definition validate_record_body ::
  "int set \<Rightarrow> raw_record \<Rightarrow> int \<Rightarrow> py_exception + validation" where
  \<comment> \<open>the body of the \<open>try\<close>; Inl is an exception that leaves it\<close>
  "validate_record_body zone_ids row row_index =
     (let pickup = parse_datetime (row_get row ''tpep_pickup_datetime'');
          dropoff = parse_datetime (row_get row ''tpep_dropoff_datetime'')
      in case pickup of
           None \<Rightarrow> reject ''invalid_datetime_format''
         | Some pickup_dt \<Rightarrow>
        (case dropoff of
           None \<Rightarrow> reject ''invalid_datetime_format''
         | Some dropoff_dt \<Rightarrow>
             if dt_le dropoff_dt pickup_dt then reject ''dropoff_before_or_equal_pickup''
             else if dt_year pickup_dt \<noteq> 2019 \<or> dt_month pickup_dt \<noteq> 1
             then reject ''date_out_of_range''
             else
               (let trip_dist_o = parse_float (row_get row ''trip_distance'');
                    fare_o = parse_float (row_get row ''fare_amount'');
                    total_o = parse_float (row_get row ''total_amount'')
                in case parse_int (row_get row ''passenger_count'') of
                     Inl e \<Rightarrow> Inl e
                   | Inr passengers_o \<Rightarrow>
                  (case parse_int (row_get row ''PULocationID'') of
                     Inl e \<Rightarrow> Inl e
                   | Inr pu_o \<Rightarrow>
                  (case parse_int (row_get row ''DOLocationID'') of
                     Inl e \<Rightarrow> Inl e
                   | Inr do_o \<Rightarrow>
                       check_ranges zone_ids row row_index pickup_dt dropoff_dt trip_dist_o
                         fare_o total_o passengers_o pu_o do_o)))))"

definition validate_record :: "int set \<Rightarrow> raw_record \<Rightarrow> int \<Rightarrow> validation" where
  \<comment> \<open>\<open>except Exception as e: return False, None, f"processing_error_{str(e)[:30]}"\<close>\<close>
  "validate_record zone_ids row row_index =
     (case validate_record_body zone_ids row row_index of
        Inr result \<Rightarrow> result
      | Inl e \<Rightarrow> (False, None, Some (''processing_error_'' @ take 30 (exn_message e))))"


section \<open>The ingestion pipeline (\<open>DataCleaner.process_csv_chunks\<close>)\<close>

text \<open>
  The rows are those that the reader yields, in order. A Python dictionary keeps its keys
  in insertion order and is an association list here: \<open>AList.update\<close> replaces the value of
  a present key in place and appends an absent one.
\<close>

record cleaner_stats =
  total_processed :: int
  total_valid :: int
  total_excluded :: int
  excluded_by_reason :: "(string \<times> int) list"

record data_cleaner =
  cleaned_trips :: "cleaned_record list"
  excluded_records :: "(int \<times> string) list"
  stats :: cleaner_stats

record ingest_state =
  cleaner :: data_cleaner
  chunk :: "validation list"
  chunk_count :: int
  progress :: "(int \<times> int) list"

definition new_cleaner :: data_cleaner where
  \<comment> \<open>\<open>__init__\<close>; the zone identifiers are a parameter of the validator\<close>
  "new_cleaner =
     \<lparr>cleaned_trips = [], excluded_records = [],
      stats = \<lparr>total_processed = 0, total_valid = 0, total_excluded = 0,
                excluded_by_reason = []\<rparr>\<rparr>"

definition dict_get_default :: "('k \<times> 'v) list \<Rightarrow> 'k \<Rightarrow> 'v \<Rightarrow> 'v" where
  \<comment> \<open>\<open>d.get(k, default)\<close>\<close>
  "dict_get_default d k dflt = (case map_of d k of Some v \<Rightarrow> v | None \<Rightarrow> dflt)"

definition record_outcome :: "int \<Rightarrow> validation \<Rightarrow> data_cleaner \<Rightarrow> data_cleaner" where
  \<comment> \<open>lines 240 to 253. A valid outcome carries a record and an invalid one a reason
      (\<open>validator_contract\<close> below), so the two None cases are never taken.\<close>
  "record_outcome row_index outcome c =
     (let st = (stats c)\<lparr>total_processed := total_processed (stats c) + 1\<rparr>
      in case outcome of
           (is_valid, cleaned, reason) \<Rightarrow>
             if is_valid then
               c\<lparr>cleaned_trips :=
                     (case cleaned of Some r \<Rightarrow> cleaned_trips c @ [r] | None \<Rightarrow> cleaned_trips c),
                  stats := st\<lparr>total_valid := total_valid st + 1\<rparr>\<rparr>
             else
               (case reason of
                  Some r \<Rightarrow>
                    c\<lparr>excluded_records := excluded_records c @ [(row_index, r)],
                       stats := st\<lparr>total_excluded := total_excluded st + 1,
                                     excluded_by_reason :=
                                       AList.update r (dict_get_default (excluded_by_reason st) r 0 + 1)
                                         (excluded_by_reason st)\<rparr>\<rparr>
                | None \<Rightarrow> c\<lparr>stats := st\<lparr>total_excluded := total_excluded st + 1\<rparr>\<rparr>))"

definition process_row :: "int \<Rightarrow> int set \<Rightarrow> int \<Rightarrow> raw_record \<Rightarrow> ingest_state \<Rightarrow> ingest_state" where
  \<comment> \<open>the body of the loop, lines 240 to 260\<close>
  "process_row chunk_size zone_ids row_index row s =
     (let outcome = validate_record zone_ids row row_index;
          c = record_outcome row_index outcome (cleaner s);
          ch = chunk s @ [outcome]
      in if chunk_size \<le> int (length ch)
         then s\<lparr>cleaner := c, chunk := [], chunk_count := chunk_count s + 1,
                 progress := progress s @ [(chunk_count s + 1, chunk_size)]\<rparr>
         else s\<lparr>cleaner := c, chunk := ch\<rparr>)"

definition cap_reached :: "int option \<Rightarrow> int \<Rightarrow> bool" where
  \<comment> \<open>\<open>MAX_ROWS_TO_PROCESS and row_index > MAX_ROWS_TO_PROCESS\<close>\<close>
  "cap_reached max_rows row_index =
     (case max_rows of None \<Rightarrow> False | Some m \<Rightarrow> m \<noteq> 0 \<and> m < row_index)"

fun process_rows ::
  "int \<Rightarrow> int option \<Rightarrow> int set \<Rightarrow> int \<Rightarrow> raw_record list \<Rightarrow> ingest_state \<Rightarrow> ingest_state" where
  "process_rows chunk_size max_rows zone_ids row_index [] s = s"
| "process_rows chunk_size max_rows zone_ids row_index (row # rows) s =
     (if cap_reached max_rows row_index then s
      else process_rows chunk_size max_rows zone_ids (row_index + 1) rows
             (process_row chunk_size zone_ids row_index row s))"

definition process_csv_chunks ::
  "int \<Rightarrow> int option \<Rightarrow> int set \<Rightarrow> raw_record list \<Rightarrow> data_cleaner \<Rightarrow> ingest_state" where
  "process_csv_chunks chunk_size max_rows zone_ids rows c =
     (let s = process_rows chunk_size max_rows zone_ids 1 rows
                \<lparr>cleaner = c, chunk = [], chunk_count = 0, progress = []\<rparr>
      in if chunk s \<noteq> []
         then s\<lparr>chunk_count := chunk_count s + 1,
                 progress := progress s @ [(chunk_count s + 1, int (length (chunk s)))]\<rparr>
         else s)"

definition cleaner_run ::
  "int \<Rightarrow> int option \<Rightarrow> int set \<Rightarrow> raw_record list \<Rightarrow> data_cleaner" where
  \<comment> \<open>\<open>DataCleaner().run()\<close>: the cleaned trips, the exclusion log and the counters\<close>
  "cleaner_run chunk_size max_rows zone_ids rows =
     cleaner (process_csv_chunks chunk_size max_rows zone_ids rows new_cleaner)"

section \<open>The risk engine (\<open>risk_engine.py\<close>)\<close>

subsection \<open>Float arithmetic\<close>


fun py_add :: "pyfloat \<Rightarrow> pyfloat \<Rightarrow> pyfloat" where
  "py_add (Fin a) (Fin b) = Fin (a + b)"
| "py_add NaN _ = NaN"
| "py_add _ NaN = NaN"
| "py_add PInf NInf = NaN"
| "py_add NInf PInf = NaN"
| "py_add PInf _ = PInf"
| "py_add _ PInf = PInf"
| "py_add NInf _ = NInf"
| "py_add _ NInf = NInf"


definition inf_of_sign :: "bool \<Rightarrow> pyfloat" where
  "inf_of_sign positive = (if positive then PInf else NInf)"


fun py_div :: "pyfloat \<Rightarrow> pyfloat \<Rightarrow> py_exception + pyfloat" where
  "py_div (Fin a) (Fin b) =
     (if b = 0 then Inl (ZeroDivisionError ''float division by zero'') else Inr (Fin (a / b)))"
| "py_div NaN (Fin b) =
     (if b = 0 then Inl (ZeroDivisionError ''float division by zero'') else Inr NaN)"
| "py_div PInf (Fin b) =
     (if b = 0 then Inl (ZeroDivisionError ''float division by zero'')
      else Inr (inf_of_sign (0 < b)))"
| "py_div NInf (Fin b) =
     (if b = 0 then Inl (ZeroDivisionError ''float division by zero'')
      else Inr (inf_of_sign (b < 0)))"
| "py_div _ NaN = Inr NaN"
| "py_div (Fin a) _ = Inr (Fin 0)"
| "py_div _ _ = Inr NaN"



definition py_min2 :: "pyfloat \<Rightarrow> pyfloat \<Rightarrow> pyfloat" where
  \<comment> \<open>\<open>min(a, b)\<close>: the first argument stays unless the second is smaller\<close>
  "py_min2 a b = (if py_lt b a then b else a)"








subsection \<open>Variance\<close>



subsection \<open>Exposure density\<close>

text \<open>
  The engine reads the cleaned trips back from the file the cleaner wrote. A value
  written there reads back as itself, so the engine is modelled on the cleaned records.
\<close>

record zone_hour_acc =
  acc_count :: int
  acc_total_duration :: pyfloat
  acc_trips :: "cleaned_record list"

record zone_hour_metric =
  zh_zone_id :: int
  zh_hour :: int
  zh_trip_count :: int
  zh_avg_trip_duration :: pyfloat
  zh_exposure_score :: int

definition add_trip ::
  "((int \<times> int) \<times> zone_hour_acc) list \<Rightarrow> cleaned_record \<Rightarrow> ((int \<times> int) \<times> zone_hour_acc) list" where
  \<comment> \<open>the body of the first loop, lines 89 to 107\<close>
  "add_trip zone_hour_trips trip =
     (let key = (pulocation_id trip, hour_of_day trip);
          cur = dict_get_default zone_hour_trips key
                  \<lparr>acc_count = 0, acc_total_duration = Fin 0, acc_trips = []\<rparr>
      in AList.update key
           \<lparr>acc_count = acc_count cur + 1,
            acc_total_duration = py_add (acc_total_duration cur) (trip_duration_minutes trip),
            acc_trips = acc_trips cur @ [trip]\<rparr>
           zone_hour_trips)"

fun exposure_metrics ::
  "((int \<times> int) \<times> zone_hour_acc) list \<Rightarrow> ((int \<times> int) \<times> zone_hour_metric) list
     \<Rightarrow> py_exception + ((int \<times> int) \<times> zone_hour_metric) list" where
  \<comment> \<open>the second loop, lines 110 to 120\<close>
  "exposure_metrics [] metrics = Inr metrics"
| "exposure_metrics ((key, data) # rest) metrics =
     (case (if 0 < acc_count data
            then py_div (acc_total_duration data) (Fin (real_of_int (acc_count data)))
            else Inr (Fin 0)) of
        Inl e \<Rightarrow> Inl e
      | Inr avg_duration \<Rightarrow>
          exposure_metrics rest
            (AList.update key
               \<lparr>zh_zone_id = fst key, zh_hour = snd key, zh_trip_count = acc_count data,
                zh_avg_trip_duration = py_round avg_duration 2,
                zh_exposure_score = acc_count data\<rparr>
               metrics))"

definition compute_exposure_density ::
  "cleaned_record list \<Rightarrow> py_exception + ((int \<times> int) \<times> zone_hour_metric) list" where
  "compute_exposure_density trips = exposure_metrics (foldl add_trip [] trips) []"

subsection \<open>Revenue volatility\<close>






subsection \<open>Risk scores\<close>










section \<open>Reference definitions\<close>




text \<open>A well-formed row of the January 2019 trip file, for the examples.\<close>

definition sample_row :: raw_record where
  "sample_row =
     map_of [(''VendorID'', Some ''1''),
             (''tpep_pickup_datetime'', Some ''2019-01-15 08:00:00''),
             (''tpep_dropoff_datetime'', Some ''2019-01-15 08:10:00''),
             (''passenger_count'', Some ''1''),
             (''trip_distance'', Some ''1.5''),
             (''RatecodeID'', Some ''1''),
             (''store_and_fwd_flag'', Some ''N''),
             (''PULocationID'', Some ''10''),
             (''DOLocationID'', Some ''20''),
             (''payment_type'', Some ''1''),
             (''fare_amount'', Some ''7.5''),
             (''extra'', Some ''0.5''),
             (''mta_tax'', Some ''0.5''),
             (''tip_amount'', Some ''1.65''),
             (''tolls_amount'', Some ''0''),
             (''improvement_surcharge'', Some ''0.3''),
             (''total_amount'', Some ''9.95''),
             (''congestion_surcharge'', Some [])]"

definition nyc_zones :: "int set" where
  \<comment> \<open>the fallback of \<open>_load_zone_ids\<close>: \<open>set(range(1, 264))\<close>\<close>
  "nyc_zones = {1..263}"

text \<open>
  The eleven rules of the validator, each as a condition on the raw record by itself,
  and the reason code that a rule reports. Rules 2, 3 and 8 speak about parsed
  timestamps and cannot fail before rule 1 holds. A field that is no number at all
  counts as null.
\<close>

definition rule_pickup :: "raw_record \<Rightarrow> datetime option" where
  "rule_pickup row = parse_datetime (row_get row ''tpep_pickup_datetime'')"

definition rule_dropoff :: "raw_record \<Rightarrow> datetime option" where
  "rule_dropoff row = parse_datetime (row_get row ''tpep_dropoff_datetime'')"

definition rule_duration :: "raw_record \<Rightarrow> real option" where
  "rule_duration row =
     (case (rule_pickup row, rule_dropoff row) of
        (Some p, Some d) \<Rightarrow> Some (real_of_int (dt_diff_seconds d p) / 60)
      | _ \<Rightarrow> None)"

definition float_null_or_below :: "pyfloat option \<Rightarrow> real \<Rightarrow> bool" where
  "float_null_or_below v lo = (case v of None \<Rightarrow> True | Some x \<Rightarrow> py_lt x (Fin lo))"

definition float_above :: "pyfloat option \<Rightarrow> real \<Rightarrow> bool" where
  "float_above v hi = (case v of None \<Rightarrow> False | Some x \<Rightarrow> py_gt x (Fin hi))"

definition int_null_or_below :: "py_exception + int option \<Rightarrow> int \<Rightarrow> bool" where
  "int_null_or_below v lo = (case v of Inr (Some n) \<Rightarrow> n < lo | _ \<Rightarrow> True)"

definition int_above :: "py_exception + int option \<Rightarrow> int \<Rightarrow> bool" where
  "int_above v hi = (case v of Inr (Some n) \<Rightarrow> hi < n | _ \<Rightarrow> False)"

definition int_not_in :: "py_exception + int option \<Rightarrow> int set \<Rightarrow> bool" where
  "int_not_in v A = (case v of Inr (Some n) \<Rightarrow> n \<notin> A | _ \<Rightarrow> True)"

definition spec_rule_fails :: "int set \<Rightarrow> raw_record \<Rightarrow> int \<Rightarrow> bool" where
  "spec_rule_fails zone_ids row k =
     (if k = 1 then rule_pickup row = None \<or> rule_dropoff row = None
      else if k = 2 then
        (case (rule_pickup row, rule_dropoff row) of
           (Some p, Some d) \<Rightarrow> dt_le d p | _ \<Rightarrow> False)
      else if k = 3 then
        (case rule_pickup row of Some p \<Rightarrow> dt_year p \<noteq> 2019 \<or> dt_month p \<noteq> 1 | None \<Rightarrow> False)
      else if k = 4 then
        float_null_or_below (parse_float (row_get row ''trip_distance'')) 0
        \<or> float_above (parse_float (row_get row ''trip_distance'')) max_distance_miles
      else if k = 5 then
        float_null_or_below (parse_float (row_get row ''fare_amount'')) min_fare
        \<or> float_above (parse_float (row_get row ''fare_amount'')) max_fare
      else if k = 6 then
        int_null_or_below (parse_int (row_get row ''passenger_count'')) min_passenger_count
        \<or> int_above (parse_int (row_get row ''passenger_count'')) max_passenger_count
      else if k = 7 then
        int_not_in (parse_int (row_get row ''PULocationID'')) zone_ids
        \<or> int_not_in (parse_int (row_get row ''DOLocationID'')) zone_ids
      else if k = 8 then
        (case rule_duration row of
           Some m \<Rightarrow> m < min_trip_duration_minutes \<or> max_trip_duration_minutes < m
         | None \<Rightarrow> False)
      else if k = 9 then
        int_not_in (parse_int (row_get row ''RatecodeID'')) (set VALID_RATE_CODES)
      else if k = 10 then
        int_not_in (parse_int (row_get row ''payment_type'')) (set VALID_PAYMENT_TYPES)
      else if k = 11 then
        (case row_get row ''store_and_fwd_flag'' of
           None \<Rightarrow> True
         | Some s \<Rightarrow> py_strip s \<notin> set VALID_STORE_FWD_FLAGS)
      else False)"

definition spec_rule_reason :: "int set \<Rightarrow> raw_record \<Rightarrow> int \<Rightarrow> string" where
  "spec_rule_reason zone_ids row k =
     (if k = 1 then ''invalid_datetime_format''
      else if k = 2 then ''dropoff_before_or_equal_pickup''
      else if k = 3 then ''date_out_of_range''
      else if k = 4 then
        (if float_null_or_below (parse_float (row_get row ''trip_distance'')) 0
         then ''negative_or_null_distance'' else ''distance_exceeds_max'')
      else if k = 5 then
        (if float_null_or_below (parse_float (row_get row ''fare_amount'')) min_fare
         then ''negative_or_null_fare'' else ''fare_exceeds_max'')
      else if k = 6 then
        (if int_null_or_below (parse_int (row_get row ''passenger_count'')) min_passenger_count
         then ''invalid_passenger_count'' else ''passenger_count_exceeds_max'')
      else if k = 7 then
        (if int_not_in (parse_int (row_get row ''PULocationID'')) zone_ids
         then ''invalid_pulocation_id'' else ''invalid_dolocation_id'')
      else if k = 8 then
        (case rule_duration row of
           Some m \<Rightarrow> if m < min_trip_duration_minutes then ''trip_duration_too_short''
                     else ''trip_duration_exceeds_max''
         | None \<Rightarrow> ''trip_duration_too_short'')
      else if k = 9 then ''invalid_ratecode''
      else if k = 10 then ''invalid_payment_type''
      else ''invalid_store_fwd_flag'')"


text \<open>The cleaned record is derived from the fields of the row: every field is the parsed
  value, a float rounded to two places.\<close>

definition cleaned_from ::
  "raw_record \<Rightarrow> int \<Rightarrow> cleaned_record \<Rightarrow> bool" where
  "cleaned_from row i rec \<longleftrightarrow>
     trip_id rec = i
     \<and> parse_int (row_get row ''passenger_count'') = Inr (Some (passenger_count rec))
     \<and> parse_int (row_get row ''PULocationID'') = Inr (Some (pulocation_id rec))
     \<and> parse_int (row_get row ''DOLocationID'') = Inr (Some (dolocation_id rec))
     \<and> parse_int (row_get row ''RatecodeID'') = Inr (Some (ratecode_id rec))
     \<and> parse_int (row_get row ''payment_type'') = Inr (Some (payment_type rec))
     \<and> map_option dt_hour (rule_pickup row) = Some (hour_of_day rec)
     \<and> map_option (\<lambda>m. py_round (Fin m) 2) (rule_duration row) = Some (trip_duration_minutes rec)
     \<and> map_option (\<lambda>x. py_round x 2) (parse_float (row_get row ''trip_distance''))
         = Some (trip_distance rec)
     \<and> map_option (\<lambda>x. py_round x 2) (parse_float (row_get row ''fare_amount''))
         = Some (fare_amount rec)
     \<and> extra rec = py_round (or_zero (parse_float (row_get row ''extra''))) 2
     \<and> mta_tax rec = py_round (or_zero (parse_float (row_get row ''mta_tax''))) 2
     \<and> tip_amount rec = py_round (or_zero (parse_float (row_get row ''tip_amount''))) 2
     \<and> tolls_amount rec = py_round (or_zero (parse_float (row_get row ''tolls_amount''))) 2
     \<and> improvement_surcharge rec
         = py_round (or_zero (parse_float (row_get row ''improvement_surcharge''))) 2
     \<and> congestion_surcharge rec
         = py_round (or_zero (parse_float (row_get row ''congestion_surcharge''))) 2
     \<and> total_amount rec = py_round (or_zero (parse_float (row_get row ''total_amount''))) 2"





definition overflow_row :: raw_record where
  "overflow_row =
     sample_row(''trip_distance'' \<mapsto> Some ''-1'', ''fare_amount'' \<mapsto> Some ''-1'',
                ''passenger_count'' \<mapsto> Some ''inf'')"


definition rejected_row :: raw_record where
  "rejected_row =
     sample_row(''tpep_pickup_datetime'' \<mapsto> Some ''15/01/2019 08:00'',
                ''fare_amount'' \<mapsto> Some ''-1'')"





definition sample_cleaned :: cleaned_record where
  "sample_cleaned =
     \<lparr>trip_id = 1, vendor_id = Some 1, pickup_datetime = ''2019-01-15 08:00:00'',
      dropoff_datetime = ''2019-01-15 08:10:00'', passenger_count = 1,
      trip_distance = Fin 1.5, ratecode_id = 1, store_and_fwd_flag = ''N'',
      pulocation_id = 10, dolocation_id = 20, payment_type = 1,
      fare_amount = Fin 7.5, extra = Fin 0.5, mta_tax = Fin 0.5,
      tip_amount = Fin 1.65, tolls_amount = Fin 0, improvement_surcharge = Fin 0.3,
      total_amount = Fin 9.95, congestion_surcharge = Fin 0,
      trip_duration_minutes = Fin 10, hour_of_day = 8\<rparr>"

section \<open>The runs as relations\<close>




definition two_rows :: "raw_record list" where
  "two_rows = [sample_row, rejected_row]"

text \<open>The key of a trip, and the count that a dictionary of the engine holds for a key.\<close>

definition trip_key :: "cleaned_record \<Rightarrow> int \<times> int" where
  "trip_key trip = (pulocation_id trip, hour_of_day trip)"

definition trips_with_key :: "cleaned_record list \<Rightarrow> int \<times> int \<Rightarrow> int" where
  "trips_with_key trips key = int (length (filter (\<lambda>t. trip_key t = key) trips))"

definition trip_count_at :: "((int \<times> int) \<times> zone_hour_metric) list \<Rightarrow> int \<times> int \<Rightarrow> int" where
  "trip_count_at metrics key = (case map_of metrics key of None \<Rightarrow> 0 | Some m \<Rightarrow> zh_trip_count m)"

definition total_trip_count :: "((int \<times> int) \<times> zone_hour_metric) list \<Rightarrow> int" where
  "total_trip_count metrics = sum_list (map (\<lambda>(k, m). zh_trip_count m) metrics)"

definition acc_count_at :: "((int \<times> int) \<times> zone_hour_acc) list \<Rightarrow> int \<times> int \<Rightarrow> int" where
  "acc_count_at acc key = (case map_of acc key of None \<Rightarrow> 0 | Some d \<Rightarrow> acc_count d)"















section \<open>Statistics of a zone\<close>







lemma py_min2_Fin: "py_min2 (Fin a) (Fin b) = Fin (min a b)"
  by (simp add: py_min2_def min_def)



lemma round_half_even_eqI:
  assumes "real_of_int n - 1 / 2 < x" and "x < real_of_int n + 1 / 2"
  shows "round_half_even x = n"
proof -
  have "\<lfloor>x\<rfloor> = n \<or> \<lfloor>x\<rfloor> = n - 1" using assms by linarith
  then show ?thesis
    using assms unfolding round_half_even_def Let_def by (auto; linarith)
qed

lemma round_half_even_of_int [simp]: "round_half_even (real_of_int n) = n"
  by (rule round_half_even_eqI) simp_all







section \<open>Rounding\<close>





lemma round_half_even_int_mult: "real_of_int (round_half_even (real_of_int k)) = real_of_int k"
  by simp

section \<open>The validator as a chain of rules\<close>

lemma check_categorical_flat:
  "check_categorical row i p d td fare tot pc pu dz =
     (let dur = real_of_int (dt_diff_seconds d p) / 60;
          rate = parse_int (row_get row ''RatecodeID'');
          pay = parse_int (row_get row ''payment_type'');
          flag = row_get row ''store_and_fwd_flag''
      in if dur < min_trip_duration_minutes then reject ''trip_duration_too_short''
         else if max_trip_duration_minutes < dur then reject ''trip_duration_exceeds_max''
         else if isl rate then Inl (projl rate)
         else if int_not_in rate (set VALID_RATE_CODES) then reject ''invalid_ratecode''
         else if isl pay then Inl (projl pay)
         else if int_not_in pay (set VALID_PAYMENT_TYPES) then reject ''invalid_payment_type''
         else if flag = None then Inl (projl (strip_flag None))
         else if py_strip (the flag) \<notin> set VALID_STORE_FWD_FLAGS then reject ''invalid_store_fwd_flag''
         else build_cleaned row i p d td fare tot pc pu dz dur (the (projr rate)) (the (projr pay))
                (py_strip (the flag)))"
  unfolding check_categorical_def Let_def int_not_in_def strip_flag_def
  by (simp split: sum.splits option.splits)

lemma check_ranges_flat:
  "check_ranges zs row i p d td_o fare_o tot pc_o pu_o do_o =
     (if float_null_or_below td_o 0 then reject ''negative_or_null_distance''
      else if float_above td_o max_distance_miles then reject ''distance_exceeds_max''
      else if float_null_or_below fare_o min_fare then reject ''negative_or_null_fare''
      else if float_above fare_o max_fare then reject ''fare_exceeds_max''
      else if int_null_or_below (Inr pc_o) min_passenger_count then reject ''invalid_passenger_count''
      else if int_above (Inr pc_o) max_passenger_count then reject ''passenger_count_exceeds_max''
      else if int_not_in (Inr pu_o) zs then reject ''invalid_pulocation_id''
      else if int_not_in (Inr do_o) zs then reject ''invalid_dolocation_id''
      else check_categorical row i p d (the td_o) (the fare_o) tot (the pc_o) (the pu_o) (the do_o))"
  unfolding check_ranges_def float_null_or_below_def float_above_def int_null_or_below_def int_above_def
    int_not_in_def
  by (cases td_o; cases fare_o; cases pc_o; cases pu_o; cases do_o; simp)

lemma validate_record_body_flat:
  "validate_record_body zs row i =
     (let pc = parse_int (row_get row ''passenger_count'');
          pu = parse_int (row_get row ''PULocationID'');
          dz = parse_int (row_get row ''DOLocationID'')
      in if rule_pickup row = None \<or> rule_dropoff row = None then reject ''invalid_datetime_format''
         else if dt_le (the (rule_dropoff row)) (the (rule_pickup row))
         then reject ''dropoff_before_or_equal_pickup''
         else if dt_year (the (rule_pickup row)) \<noteq> 2019 \<or> dt_month (the (rule_pickup row)) \<noteq> 1
         then reject ''date_out_of_range''
         else if isl pc then Inl (projl pc)
         else if isl pu then Inl (projl pu)
         else if isl dz then Inl (projl dz)
         else check_ranges zs row i (the (rule_pickup row)) (the (rule_dropoff row))
                (parse_float (row_get row ''trip_distance''))
                (parse_float (row_get row ''fare_amount''))
                (parse_float (row_get row ''total_amount''))
                (projr pc) (projr pu) (projr dz))"
  unfolding validate_record_body_def Let_def rule_pickup_def rule_dropoff_def
  by (simp split: sum.splits option.splits)


lemma build_cleaned_Inr:
  assumes "build_cleaned row i p d td fare tot pc pu dz dur rate pay flag = Inr res"
  shows "\<exists>rec. res = (True, Some rec, None)
           \<and> trip_id rec = i
           \<and> passenger_count rec = pc \<and> pulocation_id rec = pu \<and> dolocation_id rec = dz
           \<and> ratecode_id rec = rate \<and> payment_type rec = pay \<and> store_and_fwd_flag rec = flag
           \<and> hour_of_day rec = dt_hour p
           \<and> trip_distance rec = py_round td 2
           \<and> fare_amount rec = py_round fare 2
           \<and> extra rec = py_round (or_zero (parse_float (row_get row ''extra''))) 2
           \<and> mta_tax rec = py_round (or_zero (parse_float (row_get row ''mta_tax''))) 2
           \<and> tip_amount rec = py_round (or_zero (parse_float (row_get row ''tip_amount''))) 2
           \<and> tolls_amount rec = py_round (or_zero (parse_float (row_get row ''tolls_amount''))) 2
           \<and> improvement_surcharge rec
               = py_round (or_zero (parse_float (row_get row ''improvement_surcharge''))) 2
           \<and> congestion_surcharge rec
               = py_round (or_zero (parse_float (row_get row ''congestion_surcharge''))) 2
           \<and> total_amount rec = py_round (or_zero tot) 2
           \<and> trip_duration_minutes rec = py_round (Fin dur) 2"
proof -
  have z: "round_half_even 0 = 0"
    using round_half_even_of_int [of 0] by simp
  have t: "(case tot of None \<Rightarrow> Fin 0 | Some t \<Rightarrow> if py_truthy t then py_round t 2 else Fin 0)
             = py_round (or_zero tot) 2"
    by (simp add: or_zero_def z split: option.splits)
  show ?thesis
    using assms unfolding build_cleaned_def Let_def t
    by (auto split: sum.splits)
qed

lemma categorical_chain:
  assumes "rule_pickup row = Some p" and "rule_dropoff row = Some d"
    and "check_categorical row i p d td fare tot pc pu dz = Inr res"
  shows "case find (spec_rule_fails zs row) [8, 9, 10, 11] of
           Some k \<Rightarrow> res = (False, None, Some (spec_rule_reason zs row k))
         | None \<Rightarrow>
             build_cleaned row i p d td fare tot pc pu dz (real_of_int (dt_diff_seconds d p) / 60)
               (the (projr (parse_int (row_get row ''RatecodeID''))))
               (the (projr (parse_int (row_get row ''payment_type''))))
               (py_strip (the (row_get row ''store_and_fwd_flag''))) = Inr res"
  using assms(3) unfolding check_categorical_flat Let_def
  by (simp add: spec_rule_fails_def spec_rule_reason_def rule_duration_def assms(1,2) reject_def
        split: if_splits option.splits)

lemma ranges_chain:
  assumes "check_ranges zs row i p d (parse_float (row_get row ''trip_distance''))
             (parse_float (row_get row ''fare_amount'')) tot pc_o pu_o do_o = Inr res"
    and "parse_int (row_get row ''passenger_count'') = Inr pc_o"
    and "parse_int (row_get row ''PULocationID'') = Inr pu_o"
    and "parse_int (row_get row ''DOLocationID'') = Inr do_o"
  shows "case find (spec_rule_fails zs row) [4, 5, 6, 7] of
           Some k \<Rightarrow> res = (False, None, Some (spec_rule_reason zs row k))
         | None \<Rightarrow>
             check_categorical row i p d (the (parse_float (row_get row ''trip_distance'')))
               (the (parse_float (row_get row ''fare_amount''))) tot (the pc_o) (the pu_o) (the do_o)
               = Inr res"
  using assms(1) unfolding check_ranges_flat
  by (simp add: spec_rule_fails_def spec_rule_reason_def assms(2-4) reject_def
        split: if_splits)



lemma body_chain:
  assumes "validate_record_body zs row i = Inr res"
  shows "case find (spec_rule_fails zs row) [1, 2, 3] of
           Some k \<Rightarrow> res = (False, None, Some (spec_rule_reason zs row k))
         | None \<Rightarrow>
             rule_pickup row \<noteq> None \<and> rule_dropoff row \<noteq> None
             \<and> \<not> isl (parse_int (row_get row ''passenger_count''))
             \<and> \<not> isl (parse_int (row_get row ''PULocationID''))
             \<and> \<not> isl (parse_int (row_get row ''DOLocationID''))
             \<and> check_ranges zs row i (the (rule_pickup row)) (the (rule_dropoff row))
                  (parse_float (row_get row ''trip_distance''))
                  (parse_float (row_get row ''fare_amount''))
                  (parse_float (row_get row ''total_amount''))
                  (projr (parse_int (row_get row ''passenger_count'')))
                  (projr (parse_int (row_get row ''PULocationID'')))
                  (projr (parse_int (row_get row ''DOLocationID''))) = Inr res"
proof -
  have f1: "spec_rule_fails zs row 1 \<longleftrightarrow> rule_pickup row = None \<or> rule_dropoff row = None"
    by (simp add: spec_rule_fails_def)
  have f2: "\<not> spec_rule_fails zs row 1 \<Longrightarrow>
              spec_rule_fails zs row 2 \<longleftrightarrow> dt_le (the (rule_dropoff row)) (the (rule_pickup row))"
    by (auto simp add: spec_rule_fails_def)
  have f3: "\<not> spec_rule_fails zs row 1 \<Longrightarrow>
              spec_rule_fails zs row 3 \<longleftrightarrow>
                dt_year (the (rule_pickup row)) \<noteq> 2019 \<or> dt_month (the (rule_pickup row)) \<noteq> 1"
    by (auto simp add: spec_rule_fails_def)
  have r: "spec_rule_reason zs row 1 = ''invalid_datetime_format''"
    "spec_rule_reason zs row 2 = ''dropoff_before_or_equal_pickup''"
    "spec_rule_reason zs row 3 = ''date_out_of_range''"
    by (simp_all add: spec_rule_reason_def)
  note body = assms [unfolded validate_record_body_flat Let_def]
  show ?thesis
  proof (cases "spec_rule_fails zs row 1")
    case True
    then have "rule_pickup row = None \<or> rule_dropoff row = None"
      using f1 by simp
    then have "res = (False, None, Some ''invalid_datetime_format'')"
      using body by (simp add: reject_def)
    then show ?thesis
      using True by (simp add: r)
  next
    case False
    note n1 = this
    then have p: "rule_pickup row \<noteq> None" "rule_dropoff row \<noteq> None"
      using f1 by simp_all
    show ?thesis
    proof (cases "spec_rule_fails zs row 2")
      case True
      then have "dt_le (the (rule_dropoff row)) (the (rule_pickup row))"
        using f2 [OF n1] by simp
      then have "res = (False, None, Some ''dropoff_before_or_equal_pickup'')"
        using body p by (simp add: reject_def)
      then show ?thesis
        using n1 True by (simp add: r)
    next
      case False
      note n2 = this
      then have le: "\<not> dt_le (the (rule_dropoff row)) (the (rule_pickup row))"
        using f2 [OF n1] by simp
      show ?thesis
      proof (cases "spec_rule_fails zs row 3")
        case True
        then have "dt_year (the (rule_pickup row)) \<noteq> 2019 \<or> dt_month (the (rule_pickup row)) \<noteq> 1"
          using f3 [OF n1] by simp
        then have "res = (False, None, Some ''date_out_of_range'')"
          using body p le by (simp add: reject_def)
        then show ?thesis
          using n1 n2 True by (simp add: r)
      next
        case False
        then have w: "dt_year (the (rule_pickup row)) = 2019" "dt_month (the (rule_pickup row)) = 1"
          using f3 [OF n1] by simp_all
        show ?thesis
          using body p le w n1 n2 False by (simp split: if_splits)
      qed
    qed
  qed
qed

lemma find_append_cases:
  "find P (xs @ ys) = (case find P xs of None \<Rightarrow> find P ys | Some x \<Rightarrow> Some x)"
  by (induction xs) auto

lemma first_failure:
  assumes "validate_record_body zs row i = Inr res"
  shows "case find (spec_rule_fails zs row) [1, 2, 3, 4, 5, 6, 7, 8, 9, 10, 11] of
           Some k \<Rightarrow> res = (False, None, Some (spec_rule_reason zs row k))
         | None \<Rightarrow> (\<exists>rec. res = (True, Some rec, None) \<and> cleaned_from row i rec)"
proof -
  let ?F = "spec_rule_fails zs row"
  have split: "[1, 2, 3, 4, 5, 6, 7, 8, 9, 10, 11] = [1, 2, 3] @ [4, 5, 6, 7] @ [8, 9, 10, 11 :: int]"
    by simp
  show ?thesis
  proof (cases "find ?F [1, 2, 3]")
    case (Some k)
    then show ?thesis
      using body_chain [OF assms] unfolding split find_append_cases by simp
  next
    case None
    note n1 = this
    define p where "p = the (rule_pickup row)"
    define d where "d = the (rule_dropoff row)"
    define pc where "pc = projr (parse_int (row_get row ''passenger_count''))"
    define pu where "pu = projr (parse_int (row_get row ''PULocationID''))"
    define dz where "dz = projr (parse_int (row_get row ''DOLocationID''))"
    from body_chain [OF assms] None
    have pd: "rule_pickup row = Some p" "rule_dropoff row = Some d"
      and ints: "parse_int (row_get row ''passenger_count'') = Inr pc"
        "parse_int (row_get row ''PULocationID'') = Inr pu"
        "parse_int (row_get row ''DOLocationID'') = Inr dz"
      and cr: "check_ranges zs row i p d (parse_float (row_get row ''trip_distance''))
                 (parse_float (row_get row ''fare_amount''))
                 (parse_float (row_get row ''total_amount'')) pc pu dz = Inr res"
      by (auto simp: p_def d_def pc_def pu_def dz_def)
    show ?thesis
    proof (cases "find ?F [4, 5, 6, 7]")
      case (Some k)
      then show ?thesis
        using ranges_chain [OF cr ints] n1 unfolding split find_append_cases by simp
    next
      case None
      note n2 = this
      from ranges_chain [OF cr ints] None
      have cc: "check_categorical row i p d (the (parse_float (row_get row ''trip_distance'')))
                  (the (parse_float (row_get row ''fare_amount'')))
                  (parse_float (row_get row ''total_amount'')) (the pc) (the pu) (the dz) = Inr res"
        by simp
      show ?thesis
      proof (cases "find ?F [8, 9, 10, 11]")
        case (Some k)
        then show ?thesis
          using categorical_chain [OF pd cc, of zs] n1 n2 unfolding split find_append_cases by simp
      next
        case None
        from categorical_chain [OF pd cc, of zs] None
        have bc: "build_cleaned row i p d (the (parse_float (row_get row ''trip_distance'')))
                    (the (parse_float (row_get row ''fare_amount'')))
                    (parse_float (row_get row ''total_amount'')) (the pc) (the pu) (the dz)
                    (real_of_int (dt_diff_seconds d p) / 60)
                    (the (projr (parse_int (row_get row ''RatecodeID''))))
                    (the (projr (parse_int (row_get row ''payment_type''))))
                    (py_strip (the (row_get row ''store_and_fwd_flag''))) = Inr res"
          by simp
        from n2 have r47: "\<not> ?F 4" "\<not> ?F 5" "\<not> ?F 6" "\<not> ?F 7"
          by (simp_all split: if_splits)
        from None have r811: "\<not> ?F 9" "\<not> ?F 10"
          by (simp_all split: if_splits)
        have fl: "parse_float (row_get row ''trip_distance'') \<noteq> None"
          "parse_float (row_get row ''fare_amount'') \<noteq> None"
          using r47(1,2) by (auto simp: spec_rule_fails_def float_null_or_below_def split: option.splits)
        have il: "pc \<noteq> None" "pu \<noteq> None" "dz \<noteq> None"
          using r47(3,4) ints
          by (auto simp: spec_rule_fails_def int_null_or_below_def int_not_in_def split: option.splits)
        have rp: "\<exists>n. parse_int (row_get row ''RatecodeID'') = Inr (Some n)"
          "\<exists>n. parse_int (row_get row ''payment_type'') = Inr (Some n)"
          using r811 by (auto simp: spec_rule_fails_def int_not_in_def split: sum.splits option.splits)
        have dur: "rule_duration row = Some (real_of_int (dt_diff_seconds d p) / 60)"
          by (simp add: rule_duration_def pd)
        from build_cleaned_Inr [OF bc] obtain rec where
          rec: "res = (True, Some rec, None)" and flds: "trip_id rec = i"
            "passenger_count rec = the pc" "pulocation_id rec = the pu" "dolocation_id rec = the dz"
            "ratecode_id rec = the (projr (parse_int (row_get row ''RatecodeID'')))"
            "payment_type rec = the (projr (parse_int (row_get row ''payment_type'')))"
            "hour_of_day rec = dt_hour p"
            "trip_distance rec = py_round (the (parse_float (row_get row ''trip_distance''))) 2"
            "fare_amount rec = py_round (the (parse_float (row_get row ''fare_amount''))) 2"
            "extra rec = py_round (or_zero (parse_float (row_get row ''extra''))) 2"
            "mta_tax rec = py_round (or_zero (parse_float (row_get row ''mta_tax''))) 2"
            "tip_amount rec = py_round (or_zero (parse_float (row_get row ''tip_amount''))) 2"
            "tolls_amount rec = py_round (or_zero (parse_float (row_get row ''tolls_amount''))) 2"
            "improvement_surcharge rec
               = py_round (or_zero (parse_float (row_get row ''improvement_surcharge''))) 2"
            "congestion_surcharge rec
               = py_round (or_zero (parse_float (row_get row ''congestion_surcharge''))) 2"
            "total_amount rec = py_round (or_zero (parse_float (row_get row ''total_amount''))) 2"
            "trip_duration_minutes rec = py_round (Fin (real_of_int (dt_diff_seconds d p) / 60)) 2"
          by blast
        have "cleaned_from row i rec"
          unfolding cleaned_from_def
          using flds fl il rp ints pd dur by (auto simp del: py_round.simps)
        then show ?thesis
          using rec n1 n2 None unfolding split find_append_cases by simp
      qed
    qed
  qed
qed

section \<open>Evaluation on concrete rows\<close>

lemmas text_eval = py_float_def remove_underscores_def strip_with_def float_isspace_def
  split_sign_def lower_ascii_def parse_decimal_def is_digit_def parse_exponent_def
  decimal_value_def nat_of_digits_def digit_val_def float_of_real_def py_trunc_def
  strptime_def re_Y_def re_m_def re_d_def re_H_def re_M_def re_S_def cls1_def cls2_def lit_def
  spaces1_def py_isspace_def field_int_def make_datetime_def days_in_month_def is_leap_def
  py_strip_def split_comma_first_def parse_datetime_def parse_float_def parse_int_def
  row_get_def

lemmas record_eval = strftime_def show_year_def pad2_def digit_char_def dt_le_def dt_key_def
  dt_diff_seconds_def ymd2ord_def days_before_year_def days_before_month_def
  max_distance_miles_def min_fare_def max_fare_def min_trip_duration_minutes_def
  max_trip_duration_minutes_def min_passenger_count_def max_passenger_count_def
  VALID_RATE_CODES_def VALID_PAYMENT_TYPES_def VALID_STORE_FWD_FLAGS_def reject_def
  or_zero_def strip_flag_def build_cleaned_def check_categorical_def check_ranges_def
  validate_record_body_def py_gt_def round_half_even_def nyc_zones_def


lemma sample_row_body:
  "validate_record_body nyc_zones sample_row 1 =
     Inr (True,
          Some \<lparr>trip_id = 1, vendor_id = Some 1, pickup_datetime = ''2019-01-15 08:00:00'',
                dropoff_datetime = ''2019-01-15 08:10:00'', passenger_count = 1,
                trip_distance = Fin 1.5, ratecode_id = 1, store_and_fwd_flag = ''N'',
                pulocation_id = 10, dolocation_id = 20, payment_type = 1,
                fare_amount = Fin 7.5, extra = Fin 0.5, mta_tax = Fin 0.5,
                tip_amount = Fin 1.65, tolls_amount = Fin 0, improvement_surcharge = Fin 0.3,
                total_amount = Fin 9.95, congestion_surcharge = Fin 0,
                trip_duration_minutes = Fin 10, hour_of_day = 8\<rparr>,
          None)"
  by (simp add: sample_row_def text_eval record_eval)

lemma overflow_row_body:
  "validate_record_body nyc_zones overflow_row 1
     = Inl (OverflowError ''cannot convert float infinity to integer'')"
  by (simp add: overflow_row_def sample_row_def text_eval record_eval)






lemma validate_record_Inr:
  "validate_record_body zs row i = Inr res \<Longrightarrow> validate_record zs row i = res"
  by (simp add: validate_record_def)

lemma validate_record_Inl:
  "validate_record_body zs row i = Inl e \<Longrightarrow>
     validate_record zs row i = (False, None, Some (''processing_error_'' @ take 30 (exn_message e)))"
  by (simp add: validate_record_def)

lemma first_failure_Some:
  assumes "validate_record_body zs row i = Inr res"
    and "find (spec_rule_fails zs row) [1, 2, 3, 4, 5, 6, 7, 8, 9, 10, 11] = Some k"
  shows "res = (False, None, Some (spec_rule_reason zs row k))"
  using first_failure [OF assms(1)] assms(2) by simp

lemma first_failure_None:
  assumes "validate_record_body zs row i = Inr res"
    and "find (spec_rule_fails zs row) [1, 2, 3, 4, 5, 6, 7, 8, 9, 10, 11] = None"
  shows "\<exists>rec. res = (True, Some rec, None) \<and> cleaned_from row i rec"
  using first_failure [OF assms(1)] assms(2) by simp




section \<open>Claims about the validator\<close>

text \<open>
  C6: for every raw record and source index the validator returns exactly one of a valid
  outcome with a cleaned record and no reason, or an invalid outcome with no record and
  one reason; it returns for every input, and an exception that leaves the body of the
  \<open>try\<close> becomes the reason \<open>processing_error_\<close> followed by the first 30 characters
  of its message.
\<close>

theorem validator_contract:
  "(case validate_record zs row i of
      (v, c, r) \<Rightarrow> (v \<and> c \<noteq> None \<and> r = None) \<or> (\<not> v \<and> c = None \<and> r \<noteq> None))
   \<and> (validate_record_body zs row i = Inl e \<longrightarrow>
        validate_record zs row i
          = (False, None, Some (''processing_error_'' @ take 30 (exn_message e))))"
proof (intro conjI impI)
  show "case validate_record zs row i of
          (v, c, r) \<Rightarrow> (v \<and> c \<noteq> None \<and> r = None) \<or> (\<not> v \<and> c = None \<and> r \<noteq> None)"
  proof (cases "validate_record_body zs row i")
    case (Inl e)
    then show ?thesis by (simp add: validate_record_Inl)
  next
    case (Inr res)
    show ?thesis
    proof (cases "find (spec_rule_fails zs row) [1, 2, 3, 4, 5, 6, 7, 8, 9, 10, 11]")
      case None
      then show ?thesis
        using first_failure_None [OF Inr] validate_record_Inr [OF Inr] by auto
    next
      case (Some k)
      then show ?thesis
        using first_failure_Some [OF Inr] validate_record_Inr [OF Inr] by auto
    qed
  qed
next
  assume "validate_record_body zs row i = Inl e"
  then show "validate_record zs row i
               = (False, None, Some (''processing_error_'' @ take 30 (exn_message e)))"
    by (rule validate_record_Inl)
qed

theorem validator_contract_witness:
  "validate_record_body nyc_zones overflow_row 1
     = Inl (OverflowError ''cannot convert float infinity to integer'')
   \<and> validate_record nyc_zones overflow_row 1
     = (False, None, Some ''processing_error_cannot convert float infinity '')
   \<and> fst (validate_record nyc_zones sample_row 1)
   \<and> fst (snd (validate_record nyc_zones sample_row 1)) \<noteq> None
   \<and> snd (snd (validate_record nyc_zones sample_row 1)) = None"
proof -
  have "validate_record nyc_zones overflow_row 1
          = (False, None, Some ''processing_error_cannot convert float infinity '')"
    using validator_contract [of nyc_zones overflow_row 1] overflow_row_body by simp
  moreover have "fst (validate_record nyc_zones sample_row 1)"
    using validator_contract [of nyc_zones sample_row 1] validate_record_Inr [OF sample_row_body]
    by simp
  ultimately show ?thesis
    using overflow_row_body validate_record_Inr [OF sample_row_body] by simp
qed




























section \<open>Claims about the ingestion pipeline\<close>

lemma cleaner_process_row:
  "cleaner (process_row cs zs i row s) = record_outcome i (validate_record zs row i) (cleaner s)"
  by (simp add: process_row_def Let_def)

lemma cleaner_process_rows:
  assumes "cleaner s1 = cleaner s2"
  shows "cleaner (process_rows c1 cap zs i rows s1) = cleaner (process_rows c2 cap zs i rows s2)"
  using assms
proof (induction rows arbitrary: i s1 s2)
  case Nil
  then show ?case by simp
next
  case (Cons row rows)
  have "cleaner (process_row c1 zs i row s1) = cleaner (process_row c2 zs i row s2)"
    using Cons.prems by (simp add: cleaner_process_row)
  from Cons.IH [OF this] show ?case
    using Cons.prems by simp
qed

lemma cleaner_process_csv_chunks:
  "cleaner (process_csv_chunks cs cap zs rows c)
     = cleaner (process_rows cs cap zs 1 rows \<lparr>cleaner = c, chunk = [], chunk_count = 0, progress = []\<rparr>)"
  by (simp add: process_csv_chunks_def Let_def)

text \<open>
  C8: for every sequence of rows and any two batch sizes (positive or not), the cleaner
  ends with the same cleaned trips, the same exclusion records and the same counters;
  the batch size shows only in the progress report.
\<close>

theorem batch_size_independent:
  "cleaner_run c1 max_rows zs rows = cleaner_run c2 max_rows zs rows
   \<and> cleaned_trips (cleaner (process_csv_chunks c1 max_rows zs rows c))
       = cleaned_trips (cleaner (process_csv_chunks c2 max_rows zs rows c))
   \<and> excluded_records (cleaner (process_csv_chunks c1 max_rows zs rows c))
       = excluded_records (cleaner (process_csv_chunks c2 max_rows zs rows c))
   \<and> stats (cleaner (process_csv_chunks c1 max_rows zs rows c))
       = stats (cleaner (process_csv_chunks c2 max_rows zs rows c))"
proof -
  have "cleaner (process_csv_chunks c1 max_rows zs rows c)
          = cleaner (process_csv_chunks c2 max_rows zs rows c)" for c
    unfolding cleaner_process_csv_chunks by (rule cleaner_process_rows) simp
  then show ?thesis
    by (simp add: cleaner_run_def)
qed

lemma rejected_row_body:
  "validate_record_body nyc_zones rejected_row 2 = Inr (False, None, Some ''invalid_datetime_format'')"
  by (simp add: rejected_row_def sample_row_def text_eval record_eval)

lemma sample_row_valid: "validate_record nyc_zones sample_row 1 = (True, Some sample_cleaned, None)"
  using validate_record_Inr [OF sample_row_body] by (simp add: sample_cleaned_def)

lemma rejected_row_invalid:
  "validate_record nyc_zones rejected_row 2 = (False, None, Some ''invalid_datetime_format'')"
  using validate_record_Inr [OF rejected_row_body] by simp

lemma two_rows_run:
  "process_csv_chunks cs None nyc_zones two_rows new_cleaner =
     \<lparr>cleaner = \<lparr>cleaned_trips = [sample_cleaned],
                 excluded_records = [(2, ''invalid_datetime_format'')],
                 stats = \<lparr>total_processed = 2, total_valid = 1, total_excluded = 1,
                           excluded_by_reason = [(''invalid_datetime_format'', 1)]\<rparr>\<rparr>,
      chunk = (if cs \<le> 1 \<or> cs = 2 then []
               else [(True, Some sample_cleaned, None),
                     (False, None, Some ''invalid_datetime_format'')]),
      chunk_count = (if cs \<le> 1 then 2 else 1),
      progress = (if cs \<le> 1 then [(1, cs), (2, cs)] else [(1, 2)])\<rparr>"
  by (simp add: process_csv_chunks_def two_rows_def process_row_def record_outcome_def
        new_cleaner_def cap_reached_def dict_get_default_def sample_row_valid
        rejected_row_invalid Let_def)

theorem batch_size_independent_witness:
  "cleaner_run 1 None nyc_zones two_rows = cleaner_run 50000 None nyc_zones two_rows
   \<and> cleaned_trips (cleaner_run 1 None nyc_zones two_rows) = [sample_cleaned]
   \<and> excluded_records (cleaner_run 1 None nyc_zones two_rows) = [(2, ''invalid_datetime_format'')]
   \<and> total_valid (stats (cleaner_run 1 None nyc_zones two_rows)) = 1
   \<and> progress (process_csv_chunks 1 None nyc_zones two_rows new_cleaner) = [(1, 1), (2, 1)]
   \<and> progress (process_csv_chunks 50000 None nyc_zones two_rows new_cleaner) = [(1, 2)]"
proof -
  have "cleaner_run 1 None nyc_zones two_rows = cleaner_run 50000 None nyc_zones two_rows"
    using batch_size_independent [of 1 None nyc_zones two_rows 50000 new_cleaner] by simp
  then show ?thesis
    by (simp add: two_rows_run cleaner_run_def)
qed

section \<open>Exposure aggregation\<close>

lemma update_absent: "k \<notin> fst ` set al \<Longrightarrow> AList.update k v al = al @ [(k, v)]"
  by (induction al) auto

lemma sum_update:
  fixes f :: "'v \<Rightarrow> int"
  assumes "distinct (map fst al)"
  shows "sum_list (map (\<lambda>(k, d). f d) (AList.update k v al))
           = sum_list (map (\<lambda>(k, d). f d) al)
             - (case map_of al k of None \<Rightarrow> 0 | Some d \<Rightarrow> f d) + f v"
  using assms
proof (induction al)
  case Nil
  then show ?case by simp
next
  case (Cons p al)
  obtain k' d' where p: "p = (k', d')" by (cases p)
  show ?case
  proof (cases "k' = k")
    case True
    then show ?thesis using p by simp
  next
    case False
    then show ?thesis using p Cons by simp
  qed
qed

lemma acc_count_at_Nil: "acc_count_at [] k = 0"
  by (simp add: acc_count_at_def)

lemma add_trip_count_at:
  "acc_count_at (add_trip acc t) k = acc_count_at acc k + (if trip_key t = k then 1 else 0)"
  by (simp add: acc_count_at_def add_trip_def Let_def update_conv' dict_get_default_def trip_key_def
        split: option.splits)

lemma add_trip_distinct:
  "distinct (map fst acc) \<Longrightarrow> distinct (map fst (add_trip acc t))"
  by (simp add: add_trip_def Let_def distinct_update)

lemma add_trip_sum:
  assumes "distinct (map fst acc)"
  shows "sum_list (map (\<lambda>(k, d). acc_count d) (add_trip acc t))
           = sum_list (map (\<lambda>(k, d). acc_count d) acc) + 1"
  unfolding add_trip_def Let_def sum_update [OF assms]
  by (simp add: dict_get_default_def split: option.splits)

lemma add_trip_positive:
  assumes "\<forall>(k, d)\<in>set acc. 0 < acc_count d"
  shows "\<forall>(k, d)\<in>set (add_trip acc t). 0 < acc_count d"
proof -
  let ?key = "(pulocation_id t, hour_of_day t)"
  have cur: "0 \<le> acc_count (dict_get_default acc ?key
               \<lparr>acc_count = 0, acc_total_duration = Fin 0, acc_trips = []\<rparr>)"
    using assms by (auto simp: dict_get_default_def split: option.splits dest!: map_of_SomeD)
  have "set (AList.update k v al) \<subseteq> insert (k, v) (set al)"
    for k :: "int \<times> int" and v :: zone_hour_acc and al
    by (induction al) auto
  then show ?thesis
    using assms cur unfolding add_trip_def Let_def by fastforce
qed

lemma foldl_add_trip:
  assumes "distinct (map fst acc)" and "\<forall>(k, d)\<in>set acc. 0 < acc_count d"
  shows "distinct (map fst (foldl add_trip acc ts))
         \<and> (\<forall>(k, d)\<in>set (foldl add_trip acc ts). 0 < acc_count d)
         \<and> sum_list (map (\<lambda>(k, d). acc_count d) (foldl add_trip acc ts))
             = sum_list (map (\<lambda>(k, d). acc_count d) acc) + int (length ts)
         \<and> (\<forall>k. acc_count_at (foldl add_trip acc ts) k = acc_count_at acc k + trips_with_key ts k)"
  using assms
proof (induction ts arbitrary: acc)
  case Nil
  then show ?case by (simp add: trips_with_key_def)
next
  case (Cons t ts)
  note ih = Cons.IH [OF add_trip_distinct [OF Cons.prems(1)] add_trip_positive [OF Cons.prems(2)]]
  show ?case
    using ih add_trip_sum [OF Cons.prems(1), of t]
    by (auto simp: add_trip_count_at trips_with_key_def)
qed

lemma py_div_nonzero: "b \<noteq> 0 \<Longrightarrow> \<exists>q. py_div a (Fin b) = Inr q"
  by (cases a) simp_all

lemma exposure_metrics_append:
  assumes "distinct (map fst acc)" and "\<forall>(k, d)\<in>set acc. 0 < acc_count d"
    and "fst ` set acc \<inter> fst ` set m = {}"
  shows "\<exists>ms. exposure_metrics acc m = Inr (m @ ms) \<and> map fst ms = map fst acc
           \<and> map (\<lambda>(k, e). zh_trip_count e) ms = map (\<lambda>(k, d). acc_count d) acc"
  using assms
proof (induction acc arbitrary: m)
  case Nil
  then show ?case by simp
next
  case (Cons p acc)
  obtain key data where p: "p = (key, data)" by (cases p)
  have pos: "0 < acc_count data" using Cons.prems(2) p by simp
  then obtain avg where avg: "py_div (acc_total_duration data) (Fin (real_of_int (acc_count data))) = Inr avg"
    using py_div_nonzero [of "real_of_int (acc_count data)"] by auto
  let ?e = "\<lparr>zh_zone_id = fst key, zh_hour = snd key, zh_trip_count = acc_count data,
              zh_avg_trip_duration = py_round avg 2, zh_exposure_score = acc_count data\<rparr>"
  have absent: "key \<notin> fst ` set m" using Cons.prems(3) p by auto
  have upd: "AList.update key ?e m = m @ [(key, ?e)]"
    by (rule update_absent [OF absent])
  have d: "distinct (map fst acc)" and q: "\<forall>(k, d)\<in>set acc. 0 < acc_count d"
    using Cons.prems(1,2) by simp_all
  have disj: "fst ` set acc \<inter> fst ` set (m @ [(key, ?e)]) = {}"
    using Cons.prems(1,3) p by auto
  from Cons.IH [OF d q disj] obtain ms where
    ms: "exposure_metrics acc (m @ [(key, ?e)]) = Inr ((m @ [(key, ?e)]) @ ms)"
      "map fst ms = map fst acc"
      "map (\<lambda>(k, e). zh_trip_count e) ms = map (\<lambda>(k, d). acc_count d) acc"
    by blast
  have "exposure_metrics (p # acc) m = Inr (m @ ((key, ?e) # ms))"
    using p pos avg upd ms(1) by simp
  then show ?case
    using ms(2,3) p by (intro exI [where x = "(key, ?e) # ms"]) simp
qed

lemma map_of_same_shape:
  assumes "map fst xs = map fst ys"
    and "map (\<lambda>(k, e). f e) xs = map (\<lambda>(k, d). g d) ys"
  shows "map_option f (map_of xs k) = map_option g (map_of ys k)"
  using assms by (induction xs ys rule: list_induct2') auto

lemma exposure_density_counts:
  "\<exists>zhm. compute_exposure_density trips = Inr zhm
     \<and> distinct (map fst zhm)
     \<and> (\<forall>(k, e)\<in>set zhm. 0 < zh_trip_count e)
     \<and> total_trip_count zhm = int (length trips)
     \<and> (\<forall>k. trip_count_at zhm k = trips_with_key trips k)
     \<and> fst ` set zhm = trip_key ` set trips"
proof -
  let ?acc = "foldl add_trip [] trips"
  have inv: "distinct (map fst ?acc)" "\<forall>(k, d)\<in>set ?acc. 0 < acc_count d"
    "sum_list (map (\<lambda>(k, d). acc_count d) ?acc) = int (length trips)"
    "\<And>k. acc_count_at ?acc k = trips_with_key trips k"
    using foldl_add_trip [of "[]" trips] by (auto simp add: acc_count_at_Nil)
  from exposure_metrics_append [OF inv(1,2), of "[]"] obtain zhm where
    zhm: "exposure_metrics ?acc [] = Inr zhm" "map fst zhm = map fst ?acc"
      "map (\<lambda>(k, e). zh_trip_count e) zhm = map (\<lambda>(k, d). acc_count d) ?acc"
    by auto
  have cnt: "map_option zh_trip_count (map_of zhm k) = map_option acc_count (map_of ?acc k)" for k
    using zhm(2,3) by (rule map_of_same_shape)
  have at: "trip_count_at zhm k = trips_with_key trips k" for k
    using cnt [of k] inv(4) [of k]
    by (auto simp: trip_count_at_def acc_count_at_def split: option.splits)
  have pos: "\<forall>(k, e)\<in>set zhm. 0 < zh_trip_count e"
  proof -
    have "\<forall>c\<in>set (map (\<lambda>(k, d). acc_count d) ?acc). 0 < c"
      using inv(2) by auto
    then have "\<forall>c\<in>set (map (\<lambda>(k, e). zh_trip_count e) zhm). 0 < c"
      using zhm(3) by simp
    then show ?thesis by auto
  qed
  have keys: "fst ` set zhm = trip_key ` set trips"
  proof -
    have "k \<in> fst ` set zhm \<longleftrightarrow> k \<in> trip_key ` set trips" for k
    proof -
      have "k \<in> fst ` set zhm \<longleftrightarrow> map_of zhm k \<noteq> None"
        by (simp add: map_of_eq_None_iff)
      also have "\<dots> \<longleftrightarrow> trip_count_at zhm k \<noteq> 0"
        using pos by (auto simp: trip_count_at_def split: option.splits dest!: map_of_SomeD)
      also have "\<dots> \<longleftrightarrow> filter (\<lambda>t. trip_key t = k) trips \<noteq> []"
        by (simp add: at trips_with_key_def)
      also have "\<dots> \<longleftrightarrow> k \<in> trip_key ` set trips"
        by (auto simp: filter_empty_conv)
      finally show ?thesis .
    qed
    then show ?thesis by blast
  qed
  show ?thesis
    using zhm inv(1,3) at pos keys
    by (intro exI [where x = zhm]) (simp add: compute_exposure_density_def total_trip_count_def)
qed


lemma valid_outcome_has_record:
  assumes "validate_record zs row i = (True, c, r)"
  shows "c \<noteq> None"
proof -
  have body: "validate_record_body zs row i = Inr (True, c, r)"
    using assms by (cases "validate_record_body zs row i") (simp_all add: validate_record_def)
  show ?thesis
    using first_failure [OF body]
    by (cases "find (spec_rule_fails zs row) [1, 2, 3, 4, 5, 6, 7, 8, 9, 10, 11]") auto
qed

lemma record_outcome_valid_count:
  "total_valid (stats (record_outcome i (validate_record zs row i) c))
     - int (length (cleaned_trips (record_outcome i (validate_record zs row i) c)))
   = total_valid (stats c) - int (length (cleaned_trips c))"
proof -
  obtain v cl r where o: "validate_record zs row i = (v, cl, r)"
    by (cases "validate_record zs row i")
  show ?thesis
  proof (cases v)
    case True
    then obtain rec where "cl = Some rec"
      using valid_outcome_has_record [of zs row i cl r] o by auto
    then show ?thesis
      using o True by (simp add: record_outcome_def Let_def)
  next
    case False
    then show ?thesis
      using o by (simp add: record_outcome_def Let_def split: option.splits)
  qed
qed

lemma process_rows_valid_count:
  "total_valid (stats (cleaner (process_rows cs cap zs i rows s)))
     - int (length (cleaned_trips (cleaner (process_rows cs cap zs i rows s))))
   = total_valid (stats (cleaner s)) - int (length (cleaned_trips (cleaner s)))"
proof (induction rows arbitrary: i s)
  case Nil
  then show ?case by simp
next
  case (Cons row rows)
  show ?case
    using Cons.IH [of "i + 1" "process_row cs zs i row s"]
    by (simp add: cleaner_process_row record_outcome_valid_count)
qed

lemma cleaner_run_valid_count:
  "total_valid (stats (cleaner_run cs cap zs rows))
     = int (length (cleaned_trips (cleaner_run cs cap zs rows)))"
  using process_rows_valid_count
    [of cs cap zs 1 rows "\<lparr>cleaner = new_cleaner, chunk = [], chunk_count = 0, progress = []\<rparr>"]
  by (simp add: cleaner_run_def cleaner_process_csv_chunks new_cleaner_def)

text \<open>
  C4: the exposure aggregation of any list of cleaned trips returns one entry for each
  pair of pickup zone and hour that occurs; the trip count of a key is the number of
  trips with that key, so that every trip is counted under exactly one key, and the
  trip counts add up to the number of trips. On the trips that a run of the cleaner
  retains they add up to its counter \<open>total_valid\<close>.
\<close>

theorem exposure_counts_sum_to_valid:
  "(\<exists>zhm. compute_exposure_density trips = Inr zhm
      \<and> distinct (map fst zhm)
      \<and> fst ` set zhm = trip_key ` set trips
      \<and> (\<forall>k. trip_count_at zhm k = trips_with_key trips k)
      \<and> total_trip_count zhm = int (length trips))
   \<and> (\<exists>zhm. compute_exposure_density (cleaned_trips (cleaner_run cs cap zs rows)) = Inr zhm
      \<and> total_trip_count zhm = total_valid (stats (cleaner_run cs cap zs rows)))"
proof
  show "\<exists>zhm. compute_exposure_density trips = Inr zhm
      \<and> distinct (map fst zhm)
      \<and> fst ` set zhm = trip_key ` set trips
      \<and> (\<forall>k. trip_count_at zhm k = trips_with_key trips k)
      \<and> total_trip_count zhm = int (length trips)"
    using exposure_density_counts [of trips] by blast
  show "\<exists>zhm. compute_exposure_density (cleaned_trips (cleaner_run cs cap zs rows)) = Inr zhm
      \<and> total_trip_count zhm = total_valid (stats (cleaner_run cs cap zs rows))"
    using exposure_density_counts [of "cleaned_trips (cleaner_run cs cap zs rows)"]
    by (auto simp: cleaner_run_valid_count)
qed

lemma sample_exposure:
  "compute_exposure_density [sample_cleaned]
     = Inr [((10, 8), \<lparr>zh_zone_id = 10, zh_hour = 8, zh_trip_count = 1,
                        zh_avg_trip_duration = Fin 10, zh_exposure_score = 1\<rparr>)]"
  using round_half_even_of_int [of 1000]
  by (simp add: compute_exposure_density_def add_trip_def dict_get_default_def sample_cleaned_def)

theorem exposure_counts_sum_to_valid_witness:
  "cleaned_trips (cleaner_run 50000 None nyc_zones two_rows) = [sample_cleaned]
   \<and> total_valid (stats (cleaner_run 50000 None nyc_zones two_rows)) = 1
   \<and> compute_exposure_density [sample_cleaned]
       = Inr [((10, 8), \<lparr>zh_zone_id = 10, zh_hour = 8, zh_trip_count = 1,
                          zh_avg_trip_duration = Fin 10, zh_exposure_score = 1\<rparr>)]
   \<and> total_trip_count [((10, 8), \<lparr>zh_zone_id = 10, zh_hour = 8, zh_trip_count = 1,
                          zh_avg_trip_duration = Fin 10, zh_exposure_score = 1\<rparr>)]
       = total_valid (stats (cleaner_run 50000 None nyc_zones two_rows))"
proof -
  have c: "cleaned_trips (cleaner_run 50000 None nyc_zones two_rows) = [sample_cleaned]"
    by (simp add: cleaner_run_def two_rows_run)
  have "\<exists>zhm. compute_exposure_density [sample_cleaned] = Inr zhm
          \<and> total_trip_count zhm = total_valid (stats (cleaner_run 50000 None nyc_zones two_rows))"
    using exposure_counts_sum_to_valid [of "[]" 50000 None nyc_zones two_rows] c by simp
  then have "total_trip_count [((10, 8), \<lparr>zh_zone_id = 10, zh_hour = 8, zh_trip_count = 1,
                          zh_avg_trip_duration = Fin 10, zh_exposure_score = 1\<rparr>)]
       = total_valid (stats (cleaner_run 50000 None nyc_zones two_rows))"
    by (simp add: sample_exposure)
  then show ?thesis
    using c by (simp add: sample_exposure total_trip_count_def)
qed

section \<open>The risk engine\<close>




subsection \<open>The engine raises no exception\<close>


















subsection \<open>Maxima\<close>









subsection \<open>One bucket\<close>








subsection \<open>All buckets\<close>











section \<open>Determinism of a run\<close>








end
